theory Spec2Isabelle
  imports Complex_Main "HOL-Library.Word"
begin

section \<open>Python values, exceptions and dictionaries\<close>

text \<open>
  The program is \<^verbatim>\<open>tools/llm_api.py\<close>. Its exceptions are values of \<open>exn\<close> (all of
  them subclasses of Python's \<open>Exception\<close>); a function that may raise returns
  \<open>exn + 'a\<close>, with \<open>Inl\<close> for the exception. \<open>OSError\<close> stands for the I/O errors of
  \<open>open\<close> (a missing or unreadable file), \<open>APIError\<close> for what the transport client raises.
\<close>

datatype exn =
    ValueError string
  | KeyError string
  | IndexError
  | OSError string
  | APIError string

text \<open>
  The values that appear in the keyword arguments of the request: strings, the float
  literal \<open>0.7\<close> (no arithmetic is done on it), lists and dictionaries. A Python dict keeps
  its keys in insertion order, so it is an association list with distinct keys.
\<close>

datatype pyval =
    PStr string
  | PFloat real
  | PList "pyval list"
  | PDict "(string \<times> pyval) list"

type_synonym kwargs = "(string \<times> pyval) list"

definition dict_get :: "('k \<times> 'v) list \<Rightarrow> 'k \<Rightarrow> 'v option" where
  "dict_get d k = map_of d k"

definition dict_contains :: "('k \<times> 'v) list \<Rightarrow> 'k \<Rightarrow> bool" where
  "dict_contains d k = (map_of d k \<noteq> None)"

text \<open>\<open>d[k] = v\<close>: an existing key keeps its place, a new key goes to the end.\<close>

fun dict_set :: "('k \<times> 'v) list \<Rightarrow> 'k \<Rightarrow> 'v \<Rightarrow> ('k \<times> 'v) list" where
  "dict_set [] k v = [(k, v)]"
| "dict_set ((k', v') # d) k v =
     (if k' = k then (k, v) # d else (k', v') # dict_set d k v)"

text \<open>\<open>del d[k]\<close> raises \<open>KeyError\<close> when the key is absent.\<close>

definition dict_del :: "(string \<times> 'v) list \<Rightarrow> string \<Rightarrow> exn + (string \<times> 'v) list" where
  "dict_del d k =
     (if dict_contains d k then Inr (filter (\<lambda>kv. fst kv \<noteq> k) d) else Inl (KeyError k))"

text \<open>\<open>xs[0]\<close> raises \<open>IndexError\<close> on the empty list.\<close>

fun first :: "'a list \<Rightarrow> exn + 'a" where
  "first [] = Inl IndexError"
| "first (x # xs) = Inr x"

text \<open>
  Truthiness of an \<open>Optional[str]\<close>, as in \<open>if image_path:\<close>, \<open>if not api_key:\<close> and
  \<open>if response:\<close>: both \<open>None\<close> and the empty string are false.
\<close>

fun truthy :: "string option \<Rightarrow> bool" where
  "truthy None = False"
| "truthy (Some s) = (s \<noteq> [])"

section \<open>String operations\<close>

text \<open>
  A \<open>char\<close> stands for one code point below 256. \<open>str.strip()\<close> removes the characters for
  which \<open>str.isspace\<close> holds; below 256 these are the code points 9 to 13, 28 to 32, 133
  and 160.
\<close>

definition py_isspace :: "char \<Rightarrow> bool" where
  "py_isspace c =
     (let n = (of_char c :: nat)
      in (9 \<le> n \<and> n \<le> 13) \<or> (28 \<le> n \<and> n \<le> 32) \<or> n = 133 \<or> n = 160)"

definition py_strip :: "string \<Rightarrow> string" where
  "py_strip s = rev (dropWhile py_isspace (rev (dropWhile py_isspace s)))"

text \<open>\<open>s.split(c)\<close> for a one-character separator.\<close>

fun py_split :: "char \<Rightarrow> string \<Rightarrow> string list" where
  "py_split c [] = [[]]"
| "py_split c (x # xs) =
     (if x = c then [] # py_split c xs
      else (case py_split c xs of [] \<Rightarrow> [[x]] | p # ps \<Rightarrow> (x # p) # ps))"

text \<open>\<open>s.startswith(c)\<close> for a one-character prefix.\<close>

fun startswith :: "string \<Rightarrow> char \<Rightarrow> bool" where
  "startswith [] c = False"
| "startswith (x # xs) c = (x = c)"

section \<open>The process and its external collaborators\<close>

text \<open>
  What the chat-completion call returns: \<open>response.choices[0].message.content\<close> is read,
  and the content of a message is an optional string.
\<close>

datatype message = Message (content: "string option")
datatype choice = Choice (message: message)
datatype completion = Completion (choices: "choice list")

text \<open>A client is what \<open>client.chat.completions.create(**kwargs)\<close> does with a request.\<close>

datatype client = Client (create: "kwargs \<Rightarrow> exn + completion")

text \<open>
  The libraries and the file system the program calls are parameters:
  \<^item> \<open>dotenv_parse\<close>: the parser of python-dotenv, from the process environment (used for
    variable interpolation) and the lines of a file to its bindings, in file order; a
    binding without a value is \<open>(k, None)\<close>;
  \<^item> \<open>env_files\<close>: the text files of the working directory, as the lines Python's
    iteration over the file yields; \<open>None\<close> when the file does not exist (a file that
    exists but cannot be opened or decoded is not modelled);
  \<^item> \<open>cwd\<close>: the absolute path of the working directory;
  \<^item> \<open>guess_type\<close>: the first component of \<open>mimetypes.guess_type\<close>;
  \<^item> \<open>open_rb\<close>: \<open>open(path, "rb").read()\<close>, the bytes of the file or the I/O error;
  \<^item> \<open>OpenAI\<close>: the constructor of the client, from the API key.
\<close>

record externals =
  dotenv_parse :: "(string \<times> string) list \<Rightarrow> string list \<Rightarrow> (string \<times> string option) list"
  env_files :: "string \<Rightarrow> string list option"
  cwd :: string
  guess_type :: "string \<Rightarrow> string option"
  open_rb :: "string \<Rightarrow> exn + 8 word list"
  OpenAI :: "string \<Rightarrow> client"

text \<open>One constructor for each \<open>print(..., file=sys.stderr)\<close> of the program.\<close>

datatype diag =
    Current_working_directory string
  | Looking_for_environment_files "string list"
  | Checking string
  | Found string
  | Loaded_environment_variables_from string
  | Keys_loaded_from string "string list"
  | Warning_no_env_files
  | Available_system_environment_variables "string list"
  | Error_querying_LLM exn

text \<open>
  The state of the process: \<open>os.environ\<close>, the lines printed to standard output, the
  diagnostics printed to standard error, and the requests handed to the transport.
\<close>

record proc =
  environ :: "(string \<times> string) list"
  stdout :: "string list"
  stderr :: "diag list"
  requests :: "kwargs list"

definition print_stderr :: "diag \<Rightarrow> proc \<Rightarrow> proc" where
  "print_stderr d s = s\<lparr>stderr := stderr s @ [d]\<rparr>"

definition print_stdout :: "string \<Rightarrow> proc \<Rightarrow> proc" where
  "print_stdout l s = s\<lparr>stdout := stdout s @ [l]\<rparr>"

definition getenv :: "proc \<Rightarrow> string \<Rightarrow> string option" where
  "getenv s k = dict_get (environ s) k"

section \<open>Config Loader\<close>

text \<open>
  Modelled from the spec: \<open>load_dotenv\<close> belongs to the python-dotenv package, which is not
  among the sources. Section 4.1 of the specification has it load the entries of a file
  "honoring do-not-override-already-set-keys semantics"; this is the package's default
  (\<open>override=False\<close>): the bindings are collected into a dictionary (a repeated key takes
  its last value), and each key that is not yet in \<open>os.environ\<close> and has a value is set.
\<close>

definition dotenv_dict :: "(string \<times> string option) list \<Rightarrow> (string \<times> string option) list" where
  "dotenv_dict bs = foldl (\<lambda>d kv. dict_set d (fst kv) (snd kv)) [] bs"

fun set_as_environment_variables ::
  "(string \<times> string option) list \<Rightarrow> (string \<times> string) list \<Rightarrow> (string \<times> string) list" where
  "set_as_environment_variables [] env = env"
| "set_as_environment_variables ((k, v) # items) env =
     (if dict_contains env k then set_as_environment_variables items env
      else (case v of
              None \<Rightarrow> set_as_environment_variables items env
            | Some x \<Rightarrow> set_as_environment_variables items (dict_set env k x)))"

definition load_dotenv :: "externals \<Rightarrow> string list \<Rightarrow> proc \<Rightarrow> proc" where
  "load_dotenv X lines s =
     s\<lparr>environ :=
         set_as_environment_variables (dotenv_dict (dotenv_parse X (environ s) lines)) (environ s)\<rparr>"

text \<open>
  Line 37, the keys shown in the diagnostic:
  \<^verbatim>\<open>[line.split('=')[0].strip() for line in f if '=' in line and not line.startswith('#')]\<close>
\<close>

fun extract_keys :: "string list \<Rightarrow> exn + string list" where
  "extract_keys [] = Inr []"
| "extract_keys (line # rest) =
     (if CHR ''='' \<in> set line \<and> \<not> startswith line CHR ''#''
      then (case first (py_split CHR ''='' line) of
              Inl e \<Rightarrow> Inl e
            | Inr p \<Rightarrow>
                (case extract_keys rest of
                   Inl e \<Rightarrow> Inl e
                 | Inr ks \<Rightarrow> Inr (py_strip p # ks)))
      else extract_keys rest)"

text \<open>
  \<open>(Path('.') / env_file).absolute()\<close> as it is printed: the working directory, a slash
  unless the working directory is the root, and the file name.
\<close>

definition env_path_absolute :: "externals \<Rightarrow> string \<Rightarrow> string" where
  "env_path_absolute X env_file =
     (if cwd X = ''/'' then ''/'' @ env_file else cwd X @ ''/'' @ env_file)"

text \<open>
  The body of the loop over \<open>env_files\<close> (lines 27 to 38), on the flag \<open>env_loaded\<close> and the
  process state.
\<close>

definition load_env_file :: "externals \<Rightarrow> string \<Rightarrow> bool \<times> proc \<Rightarrow> exn + bool \<times> proc" where
  "load_env_file X env_file st =
     (let env_loaded = fst st;
          s1 = print_stderr (Checking (env_path_absolute X env_file)) (snd st)
      in case env_files X env_file of
           None \<Rightarrow> Inr (env_loaded, s1)
         | Some lines \<Rightarrow>
             (let s2 = print_stderr (Found env_file) s1;
                  s3 = load_dotenv X lines s2;
                  s4 = print_stderr (Loaded_environment_variables_from env_file) s3
              in case extract_keys lines of
                   Inl e \<Rightarrow> Inl e
                 | Inr keys \<Rightarrow> Inr (True, print_stderr (Keys_loaded_from env_file keys) s4)))"

fun load_env_loop :: "externals \<Rightarrow> string list \<Rightarrow> bool \<times> proc \<Rightarrow> exn + bool \<times> proc" where
  "load_env_loop X [] st = Inr st"
| "load_env_loop X (env_file # rest) st =
     (case load_env_file X env_file st of
        Inl e \<Rightarrow> Inl e
      | Inr st' \<Rightarrow> load_env_loop X rest st')"

definition load_environment :: "externals \<Rightarrow> proc \<Rightarrow> exn + proc" where
  "load_environment X s =
     (let env_files = [''.env.local'', ''.env'', ''.env.example''];
          s1 = print_stderr (Current_working_directory (cwd X)) s;
          s2 = print_stderr (Looking_for_environment_files env_files) s1
      in case load_env_loop X env_files (False, s2) of
           Inl e \<Rightarrow> Inl e
         | Inr (env_loaded, s3) \<Rightarrow>
             (if \<not> env_loaded
              then Inr (print_stderr (Available_system_environment_variables (map fst (environ s3)))
                          (print_stderr Warning_no_env_files s3))
              else Inr s3))"

section \<open>Media Encoder\<close>

text \<open>
  \<open>base64.b64encode\<close> of the standard library (RFC 4648, standard alphabet, padded with
  \<open>=\<close>): three bytes make a group of 24 bits, read as four indices of 6 bits. Its result
  is ASCII, so the \<open>decode('utf-8')\<close> that follows it is the identity and cannot fail.
\<close>

definition b64_alphabet :: string where
  "b64_alphabet = ''ABCDEFGHIJKLMNOPQRSTUVWXYZabcdefghijklmnopqrstuvwxyz0123456789+/''"

definition b64_char :: "nat \<Rightarrow> char" where
  "b64_char n = b64_alphabet ! (n mod 64)"

fun b64encode :: "8 word list \<Rightarrow> string" where
  "b64encode [] = []"
| "b64encode [a] =
     (let n = unat a * 65536
      in [b64_char (n div 262144), b64_char (n div 4096), CHR ''='', CHR ''=''])"
| "b64encode [a, b] =
     (let n = unat a * 65536 + unat b * 256
      in [b64_char (n div 262144), b64_char (n div 4096), b64_char (n div 64), CHR ''=''])"
| "b64encode (a # b # c # rest) =
     (let n = unat a * 65536 + unat b * 256 + unat c
      in [b64_char (n div 262144), b64_char (n div 4096), b64_char (n div 64), b64_char n])
     @ b64encode rest"

definition encode_image_file :: "externals \<Rightarrow> string \<Rightarrow> exn + string \<times> string" where
  "encode_image_file X image_path =
     (let guessed = guess_type X image_path;
          mime_type = (if \<not> truthy guessed then ''image/png''
                       else (case guessed of Some m \<Rightarrow> m | None \<Rightarrow> ''image/png''))
      in case open_rb X image_path of
           Inl e \<Rightarrow> Inl e
         | Inr bytes \<Rightarrow> Inr (b64encode bytes, mime_type))"

section \<open>Request Builder and Client Invoker\<close>

definition create_llm_client :: "externals \<Rightarrow> proc \<Rightarrow> exn + client" where
  "create_llm_client X s =
     (let api_key = getenv s ''OPENAI_API_KEY''
      in if \<not> truthy api_key
         then Inl (ValueError ''OPENAI_API_KEY not found in environment variables'')
         else (case api_key of
                 Some k \<Rightarrow> Inr (OpenAI X k)
               | None \<Rightarrow> Inl (ValueError ''OPENAI_API_KEY not found in environment variables'')))"

text \<open>
  Lines 89 to 119 of \<open>query_llm\<close>: the default model, the message with its content blocks,
  and the keyword arguments of the request. \<open>model_opt\<close> and \<open>image_path\<close> are the
  arguments \<open>model\<close> and \<open>image_path\<close> of \<open>query_llm\<close>.
\<close>

definition query_llm_kwargs ::
  "externals \<Rightarrow> string \<Rightarrow> string option \<Rightarrow> string option \<Rightarrow> exn + kwargs" where
  "query_llm_kwargs X prompt_text model_opt image_path =
     (let model_id = (case model_opt of None \<Rightarrow> ''gpt-4o'' | Some m \<Rightarrow> m);
          text_block = PDict [(''type'', PStr ''text''), (''text'', PStr prompt_text)];
          blocks0 = [] @ [text_block]
      in case (if truthy image_path
               then (case encode_image_file X (case image_path of Some p \<Rightarrow> p | None \<Rightarrow> [])
                     of Inl e \<Rightarrow> Inl e
                      | Inr (encoded_image, mime_type) \<Rightarrow>
                          Inr [PDict [(''type'', PStr ''text''), (''text'', PStr prompt_text)],
                               PDict [(''type'', PStr ''image_url''),
                                      (''image_url'',
                                       PDict [(''url'',
                                               PStr (''data:'' @ mime_type @ '';base64,''
                                                     @ encoded_image))])]])
               else Inr blocks0)
         of Inl e \<Rightarrow> Inl e
          | Inr blocks \<Rightarrow>
              (let messages = [PDict [(''role'', PStr ''user''), (''content'', PList blocks)]];
                   kw = [(''model'', PStr model_id),
                         (''messages'', PList messages),
                         (''temperature'', PFloat 0.7)]
               in if model_id = ''o1''
                  then dict_del
                         (dict_set
                            (dict_set kw ''response_format'' (PDict [(''type'', PStr ''text'')]))
                            ''reasoning_effort'' (PStr ''low''))
                         ''temperature''
                  else Inr kw))"

text \<open>
  \<open>query_llm\<close>: the client is made outside the \<open>try\<close> block, so its \<open>ValueError\<close> leaves
  the function; every exception raised inside the block (building the request, the call
  of the transport, reading \<open>choices[0]\<close>) is printed to standard error and turned into
  \<open>None\<close>. A request is recorded in \<open>requests\<close> when it is handed to the transport.
\<close>

definition query_llm ::
  "externals \<Rightarrow> string \<Rightarrow> client option \<Rightarrow> string option \<Rightarrow> string option \<Rightarrow> proc
     \<Rightarrow> (exn + string option) \<times> proc" where
  "query_llm X prompt_text client_opt model_opt image_path s =
     (case (case client_opt of None \<Rightarrow> create_llm_client X s | Some c \<Rightarrow> Inr c) of
        Inl e \<Rightarrow> (Inl e, s)
      | Inr c \<Rightarrow>
          (case (case query_llm_kwargs X prompt_text model_opt image_path of
                   Inl e \<Rightarrow> (Inl e, s)
                 | Inr kw \<Rightarrow>
                     (let s1 = s\<lparr>requests := requests s @ [kw]\<rparr>
                      in case create c kw of
                           Inl e \<Rightarrow> (Inl e, s1)
                         | Inr response \<Rightarrow>
                             (case first (choices response) of
                                Inl e \<Rightarrow> (Inl e, s1)
                              | Inr ch \<Rightarrow> (Inr (content (message ch)), s1))))
           of (Inl e, s2) \<Rightarrow> (Inr None, print_stderr (Error_querying_LLM e) s2)
            | (Inr r, s2) \<Rightarrow> (Inr r, s2)))"

section \<open>CLI Front-End\<close>

text \<open>The parsed command line: \<open>--prompt\<close> is required, \<open>--model\<close> and \<open>--image\<close> default to \<open>None\<close>.\<close>

record args =
  arg_prompt :: string
  arg_model :: "string option"
  arg_image :: "string option"

text \<open>
  How \<open>main\<close> ends: it returns, it calls \<open>sys.exit\<close>, or an exception leaves it. The
  interpreter's exit status is 0 for a return and 1 for an uncaught exception.
\<close>

datatype outcome = Returned | SystemExit nat | Uncaught exn

fun exit_status :: "outcome \<Rightarrow> nat" where
  "exit_status Returned = 0"
| "exit_status (SystemExit n) = n"
| "exit_status (Uncaught e) = 1"

definition main :: "externals \<Rightarrow> args \<Rightarrow> proc \<Rightarrow> outcome \<times> proc" where
  "main X a s =
     (case query_llm X (arg_prompt a) None (arg_model a) (arg_image a) s of
        (Inl e, s1) \<Rightarrow> (Uncaught e, s1)
      | (Inr response, s1) \<Rightarrow>
          (if truthy response
           then (Returned, print_stdout (case response of Some r \<Rightarrow> r | None \<Rightarrow> ''None'') s1)
           else (SystemExit 1, s1)))"

section \<open>Specification-side notions and example inputs\<close>

text \<open>
  The value a file gives to a key, from the bindings its parser yields: that of the last
  binding of the key, when this binding has a value.
\<close>

definition defined_value :: "(string \<times> string option) list \<Rightarrow> string \<Rightarrow> string option" where
  "defined_value bs k = (case map_of (rev bs) k of Some (Some v) \<Rightarrow> Some v | _ \<Rightarrow> None)"

text \<open>
  The key list in the words of the specification: the text before the first \<open>=\<close> of every
  line that contains \<open>=\<close> and does not start with \<open>#\<close>.
\<close>

definition spec_key_list :: "string list \<Rightarrow> string list" where
  "spec_key_list ls =
     map (takeWhile (\<lambda>c. c \<noteq> CHR ''=''))
       (filter (\<lambda>l. CHR ''='' \<in> set l \<and> \<not> startswith l CHR ''#'') ls)"

text \<open>The key list with the surrounding white space of every key removed.\<close>

definition stripped_key_list :: "string list \<Rightarrow> string list" where
  "stripped_key_list ls =
     map (\<lambda>l. py_strip (takeWhile (\<lambda>c. c \<noteq> CHR ''='') l))
       (filter (\<lambda>l. CHR ''='' \<in> set l \<and> \<not> startswith l CHR ''#'') ls)"

text \<open>
  The attachment of a call, if there is one, can be read: \<open>image_path\<close> is \<open>None\<close> or
  empty (no attachment for \<open>if image_path:\<close>), or \<open>open\<close> and \<open>read\<close> succeed on it.
\<close>

definition attachment_readable :: "externals \<Rightarrow> string option \<Rightarrow> bool" where
  "attachment_readable X image_path =
     (case image_path of
        None \<Rightarrow> True
      | Some path \<Rightarrow>
          (if path = [] then True
           else (case open_rb X path of Inl e \<Rightarrow> False | Inr bytes \<Rightarrow> True)))"

text \<open>
  Example inputs. The example parser reads \<open>KEY=VALUE\<close> lines and skips comments; the
  example files are the three environment files with overlapping keys.
\<close>

definition text_lines :: "string list \<Rightarrow> string list" where
  "text_lines ls = map (\<lambda>l. l @ [CHR 0x0A]) ls"

definition example_parse ::
  "(string \<times> string) list \<Rightarrow> string list \<Rightarrow> (string \<times> string option) list" where
  "example_parse env ls =
     map (\<lambda>l. (py_strip (takeWhile (\<lambda>c. c \<noteq> CHR ''='') l),
                Some (py_strip (drop 1 (dropWhile (\<lambda>c. c \<noteq> CHR ''='') l)))))
       (filter (\<lambda>l. CHR ''='' \<in> set l \<and> \<not> startswith l CHR ''#'') ls)"

definition env_local_lines :: "string list" where
  "env_local_lines = text_lines [''# local overrides'', ''OPENAI_API_KEY=sk-local'', ''MODE = dev'']"

definition env_lines :: "string list" where
  "env_lines = text_lines [''OPENAI_API_KEY=sk-project'', ''REGION=eu'', ''MODE=prod'']"

definition env_example_lines :: "string list" where
  "env_example_lines =
     text_lines [''OPENAI_API_KEY=your-key-here'', ''REGION=us'', ''TIMEOUT=30'', ''no binding here'']"

definition example_files :: "string \<Rightarrow> string list option" where
  "example_files f =
     (if f = ''.env.local'' then Some env_local_lines
      else if f = ''.env'' then Some env_lines
      else if f = ''.env.example'' then Some env_example_lines
      else None)"

definition example_externals :: "client \<Rightarrow> externals" where
  "example_externals c =
     \<lparr>dotenv_parse = example_parse,
      env_files = example_files,
      cwd = ''/work'',
      guess_type = (\<lambda>p. if p = ''cat.jpg'' then Some ''image/jpeg'' else None),
      open_rb = (\<lambda>p. if p = ''cat.jpg'' \<or> p = ''blob''
                      then Inr [102, 111, 111, 98]
                      else Inl (OSError ''No such file or directory'')),
      OpenAI = (\<lambda>k. c)\<rparr>"

definition client_returning :: "string \<Rightarrow> client" where
  "client_returning t = Client (\<lambda>kw. Inr (Completion [Choice (Message (Some t))]))"

definition client_failing :: "exn \<Rightarrow> client" where
  "client_failing e = Client (\<lambda>kw. Inl e)"

definition example_proc :: "(string \<times> string) list \<Rightarrow> proc" where
  "example_proc env = \<lparr>environ = env, stdout = [], stderr = [], requests = []\<rparr>"

text \<open>The requests built for the prompt \<open>Hello\<close> without an image.\<close>

definition hello_messages :: pyval where
  "hello_messages =
     PList [PDict [(''role'', PStr ''user''),
                   (''content'', PList [PDict [(''type'', PStr ''text''),
                                               (''text'', PStr ''Hello'')]])]]"

definition hello_request :: kwargs where
  "hello_request =
     [(''model'', PStr ''gpt-4o''), (''messages'', hello_messages), (''temperature'', PFloat 0.7)]"

definition hello_o1_request :: kwargs where
  "hello_o1_request =
     [(''model'', PStr ''o1''), (''messages'', hello_messages),
      (''response_format'', PDict [(''type'', PStr ''text'')]),
      (''reasoning_effort'', PStr ''low'')]"

definition hello_args :: args where
  "hello_args = \<lparr>arg_prompt = ''Hello'', arg_model = None, arg_image = None\<rparr>"

definition keyed_proc :: proc where
  "keyed_proc = example_proc [(''OPENAI_API_KEY'', ''sk-test'')]"

text \<open>The requests built for the prompt \<open>Hello\<close> with the attachment \<open>cat.jpg\<close>.\<close>

definition cat_messages :: pyval where
  "cat_messages =
     PList [PDict [(''role'', PStr ''user''),
                   (''content'',
                    PList [PDict [(''type'', PStr ''text''), (''text'', PStr ''Hello'')],
                           PDict [(''type'', PStr ''image_url''),
                                  (''image_url'',
                                   PDict [(''url'',
                                           PStr ''data:image/jpeg;base64,Zm9vYg=='')])]])]]"

definition cat_o1_request :: kwargs where
  "cat_o1_request =
     [(''model'', PStr ''o1''), (''messages'', cat_messages),
      (''response_format'', PDict [(''type'', PStr ''text'')]),
      (''reasoning_effort'', PStr ''low'')]"

definition cat_mini_request :: kwargs where
  "cat_mini_request =
     [(''model'', PStr ''gpt-4o-mini''), (''messages'', cat_messages),
      (''temperature'', PFloat 0.7)]"

section \<open>Dictionaries\<close>

lemma map_of_dict_set: "map_of (dict_set d k v) = (map_of d)(k \<mapsto> v)"
  by (induction d) (auto simp: fun_eq_iff)

lemma keys_dict_set: "fst ` set (dict_set d k v) = insert k (fst ` set d)"
  by (simp add: dom_map_of_conv_image_fst[symmetric] map_of_dict_set)

lemma distinct_dict_set: "distinct (map fst d) \<Longrightarrow> distinct (map fst (dict_set d k v))"
  by (induction d) (auto simp: keys_dict_set)

lemma distinct_foldl_dict_set:
  "distinct (map fst d) \<Longrightarrow>
   distinct (map fst (foldl (\<lambda>d kv. dict_set d (fst kv) (snd kv)) d bs))"
  by (induction bs arbitrary: d) (auto simp: distinct_dict_set)

lemma map_of_foldl_dict_set:
  "map_of (foldl (\<lambda>d kv. dict_set d (fst kv) (snd kv)) d bs) = map_of d ++ map_of (rev bs)"
  by (induction bs arbitrary: d)
     (auto simp: map_of_dict_set fun_eq_iff map_add_def split: option.splits)

section \<open>Properties of the Config Loader\<close>

lemma distinct_dotenv_dict: "distinct (map fst (dotenv_dict bs))"
  unfolding dotenv_dict_def by (rule distinct_foldl_dict_set) simp

lemma map_of_dotenv_dict: "map_of (dotenv_dict bs) = map_of (rev bs)"
  unfolding dotenv_dict_def by (simp add: map_of_foldl_dict_set)

text \<open>
  One pass of \<open>set_as_environment_variables\<close>: a key of the environment keeps its value,
  any other key takes the value the dictionary has for it, if it has one.
\<close>

lemma map_of_set_as_environment_variables:
  "distinct (map fst items) \<Longrightarrow>
   map_of (set_as_environment_variables items env) k =
     (case map_of env k of
        Some v \<Rightarrow> Some v
      | None \<Rightarrow> (case map_of items k of Some (Some v) \<Rightarrow> Some v | _ \<Rightarrow> None))"
proof (induction items arbitrary: env)
  case Nil
  then show ?case by (simp split: option.splits)
next
  case (Cons kv items)
  obtain k' v' where kv: "kv = (k', v')" by (cases kv)
  from Cons.prems kv have notin: "map_of items k' = None" and d: "distinct (map fst items)"
    by (auto simp: map_of_eq_None_iff)
  show ?case
  proof (cases "dict_contains env k'")
    case True
    then show ?thesis using Cons.IH[OF d, of env] kv
      by (auto simp: dict_contains_def split: option.splits)
  next
    case False
    then show ?thesis using Cons.IH[OF d] kv notin
      by (cases v') (auto simp: dict_contains_def map_of_dict_set split: option.splits)
  qed
qed

lemma getenv_load_dotenv:
  "getenv (load_dotenv X ls s) k =
     (case getenv s k of
        Some v \<Rightarrow> Some v
      | None \<Rightarrow> defined_value (dotenv_parse X (environ s) ls) k)"
  by (simp add: getenv_def load_dotenv_def dict_get_def defined_value_def
      map_of_set_as_environment_variables distinct_dotenv_dict map_of_dotenv_dict
      split: option.splits)

lemma py_split_takeWhile: "py_split c s = takeWhile (\<lambda>x. x \<noteq> c) s # tl (py_split c s)"
  by (induction s) (auto split: list.splits)

lemma first_py_split: "first (py_split c s) = Inr (takeWhile (\<lambda>x. x \<noteq> c) s)"
  by (subst py_split_takeWhile) simp

lemma extract_keys_eq:
  "extract_keys ls =
     Inr (map (\<lambda>l. py_strip (takeWhile (\<lambda>x. x \<noteq> CHR ''='') l))
            (filter (\<lambda>l. CHR ''='' \<in> set l \<and> \<not> startswith l CHR ''#'') ls))"
  by (induction ls) (simp_all add: first_py_split)

lemma environ_print_stderr: "environ (print_stderr d s) = environ s"
  by (simp add: print_stderr_def)

lemma stderr_print_stderr: "stderr (print_stderr d s) = stderr s @ [d]"
  by (simp add: print_stderr_def)

lemma load_dotenv_print_stderr:
  "load_dotenv X ls (print_stderr d s) = print_stderr d (load_dotenv X ls s)"
  by (simp add: load_dotenv_def print_stderr_def)

lemma stderr_load_dotenv: "stderr (load_dotenv X ls s) = stderr s"
  by (simp add: load_dotenv_def)

lemma load_env_file_Some:
  "env_files X f = Some ls \<Longrightarrow>
   load_env_file X f (b, s) =
     Inr (True,
          print_stderr (Keys_loaded_from f
                 (map (\<lambda>l. py_strip (takeWhile (\<lambda>x. x \<noteq> CHR ''='') l))
                    (filter (\<lambda>l. CHR ''='' \<in> set l \<and> \<not> startswith l CHR ''#'') ls)))
            (print_stderr (Loaded_environment_variables_from f)
               (load_dotenv X ls
                  (print_stderr (Found f) (print_stderr (Checking (env_path_absolute X f)) s)))))"
  by (simp add: load_env_file_def extract_keys_eq Let_def)

lemma load_env_file_None:
  "env_files X f = None \<Longrightarrow>
   load_env_file X f (b, s) = Inr (b, print_stderr (Checking (env_path_absolute X f)) s)"
  by (simp add: load_env_file_def Let_def)

lemma load_environment_three_files:
  assumes "env_files X ''.env.local'' = Some l1"
    and "env_files X ''.env'' = Some l2"
    and "env_files X ''.env.example'' = Some l3"
  shows "\<exists>s'. load_environment X s = Inr s' \<and>
           environ s' = environ (load_dotenv X l3 (load_dotenv X l2 (load_dotenv X l1 s)))"
  using assms
  by (simp add: load_environment_def Let_def load_env_file_Some
      load_dotenv_print_stderr environ_print_stderr)

text \<open>
  C1. With \<open>.env.local\<close>, \<open>.env\<close> and \<open>.env.example\<close> all present, \<open>load_environment\<close>
  returns, and the value it resolves for a key is the value of the highest-precedence
  source that defines the key: the system environment first, then \<open>.env.local\<close>, then
  \<open>.env\<close>, then \<open>.env.example\<close>. In particular a key set by a higher-precedence source is
  not overwritten by a later file. Each file is parsed in the environment it is loaded in.
\<close>

theorem load_environment_precedence:
  assumes "env_files X ''.env.local'' = Some l1"
    and "env_files X ''.env'' = Some l2"
    and "env_files X ''.env.example'' = Some l3"
  shows "\<exists>s'. load_environment X s = Inr s' \<and>
           getenv s' k =
             (case getenv s k of
                Some v \<Rightarrow> Some v
              | None \<Rightarrow>
                 (case defined_value (dotenv_parse X (environ s) l1) k of
                    Some v \<Rightarrow> Some v
                  | None \<Rightarrow>
                     (case defined_value (dotenv_parse X (environ (load_dotenv X l1 s)) l2) k of
                        Some v \<Rightarrow> Some v
                      | None \<Rightarrow>
                          defined_value
                            (dotenv_parse X (environ (load_dotenv X l2 (load_dotenv X l1 s))) l3)
                            k)))"
proof -
  from load_environment_three_files[OF assms, of s] obtain s' where
    s': "load_environment X s = Inr s'" and
    env: "environ s' = environ (load_dotenv X l3 (load_dotenv X l2 (load_dotenv X l1 s)))"
    by blast
  have "getenv s' k = getenv (load_dotenv X l3 (load_dotenv X l2 (load_dotenv X l1 s))) k"
    by (simp add: getenv_def env)
  also have "\<dots> =
             (case getenv s k of
                Some v \<Rightarrow> Some v
              | None \<Rightarrow>
                 (case defined_value (dotenv_parse X (environ s) l1) k of
                    Some v \<Rightarrow> Some v
                  | None \<Rightarrow>
                     (case defined_value (dotenv_parse X (environ (load_dotenv X l1 s)) l2) k of
                        Some v \<Rightarrow> Some v
                      | None \<Rightarrow>
                          defined_value
                            (dotenv_parse X (environ (load_dotenv X l2 (load_dotenv X l1 s))) l3)
                            k)))"
    by (simp add: getenv_load_dotenv split: option.splits)
  finally show ?thesis using s' by blast
qed

lemmas example_defs =
  example_externals_def example_files_def example_parse_def example_proc_def
  env_local_lines_def env_lines_def env_example_lines_def text_lines_def
  client_returning_def client_failing_def hello_messages_def hello_request_def
  hello_o1_request_def hello_args_def keyed_proc_def

lemma example_defined_values:
  "defined_value (example_parse e env_local_lines) ''OPENAI_API_KEY'' = Some ''sk-local''"
  "defined_value (example_parse e env_local_lines) ''REGION'' = None"
  "defined_value (example_parse e env_lines) ''REGION'' = Some ''eu''"
  by (simp_all add: example_defs defined_value_def py_strip_def py_isspace_def)

theorem load_environment_precedence_witness:
  "env_files (example_externals (client_returning ''Hi'')) ''.env.local'' = Some env_local_lines \<and>
   env_files (example_externals (client_returning ''Hi'')) ''.env'' = Some env_lines \<and>
   env_files (example_externals (client_returning ''Hi'')) ''.env.example'' = Some env_example_lines \<and>
   (\<exists>s'. load_environment (example_externals (client_returning ''Hi'')) (example_proc [(''HOME'', ''/root'')]) = Inr s' \<and>
         getenv s' ''REGION'' = Some ''eu'')"
proof -
  have f: "env_files (example_externals (client_returning ''Hi'')) ''.env.local'' = Some env_local_lines"
    "env_files (example_externals (client_returning ''Hi'')) ''.env'' = Some env_lines"
    "env_files (example_externals (client_returning ''Hi'')) ''.env.example'' = Some env_example_lines"
    by (simp_all add: example_externals_def example_files_def)
  have p: "dotenv_parse (example_externals (client_returning ''Hi'')) = example_parse"
    by (simp add: example_externals_def)
  have g: "getenv (example_proc [(''HOME'', ''/root'')]) ''REGION'' = None"
    by (simp add: getenv_def dict_get_def example_proc_def)
  show ?thesis
    using load_environment_precedence[OF f, of "example_proc [(''HOME'', ''/root'')]" "''REGION''"]
    by (simp add: f p g example_defined_values)
qed

lemma extract_keys_stripped: "extract_keys ls = Inr (stripped_key_list ls)"
  by (simp add: extract_keys_eq stripped_key_list_def)

lemma load_env_file_stderr:
  "\<exists>b' s'. load_env_file X f (b, s) = Inr (b', s') \<and>
      set (stderr s) \<subseteq> set (stderr s') \<and>
      (\<forall>ls. env_files X f = Some ls \<longrightarrow>
            Keys_loaded_from f (stripped_key_list ls) \<in> set (stderr s'))"
proof (cases "env_files X f")
  case None
  then show ?thesis
    by (auto simp: load_env_file_None stderr_print_stderr)
next
  case (Some ls)
  then show ?thesis
    by (auto simp: load_env_file_Some stderr_print_stderr stderr_load_dotenv
        stripped_key_list_def)
qed

lemma load_env_loop_stderr:
  "\<exists>st'. load_env_loop X fs st = Inr st' \<and>
      set (stderr (snd st)) \<subseteq> set (stderr (snd st')) \<and>
      (\<forall>f ls. f \<in> set fs \<longrightarrow> env_files X f = Some ls \<longrightarrow>
            Keys_loaded_from f (stripped_key_list ls) \<in> set (stderr (snd st')))"
proof (induction fs arbitrary: st)
  case Nil
  then show ?case by simp
next
  case (Cons f fs)
  obtain b s where st: "st = (b, s)" by (cases st)
  from load_env_file_stderr[of X f b s] obtain b1 s1 where
    step: "load_env_file X f (b, s) = Inr (b1, s1)" and
    sub1: "set (stderr s) \<subseteq> set (stderr s1)" and
    keys1: "\<forall>ls. env_files X f = Some ls \<longrightarrow>
              Keys_loaded_from f (stripped_key_list ls) \<in> set (stderr s1)"
    by blast
  from Cons.IH[of "(b1, s1)"] obtain st' where
    rest: "load_env_loop X fs (b1, s1) = Inr st'" and
    sub2: "set (stderr s1) \<subseteq> set (stderr (snd st'))" and
    keys2: "\<forall>g ls. g \<in> set fs \<longrightarrow> env_files X g = Some ls \<longrightarrow>
              Keys_loaded_from g (stripped_key_list ls) \<in> set (stderr (snd st'))"
    by auto
  have "load_env_loop X (f # fs) st = Inr st'"
    by (simp add: st step rest)
  moreover have "set (stderr (snd st)) \<subseteq> set (stderr (snd st'))"
    using sub1 sub2 st by auto
  moreover have "\<forall>g ls. g \<in> set (f # fs) \<longrightarrow> env_files X g = Some ls \<longrightarrow>
              Keys_loaded_from g (stripped_key_list ls) \<in> set (stderr (snd st'))"
    using keys1 keys2 sub2 by auto
  ultimately show ?case by blast
qed

text \<open>
  C9, as the specification states it, fails: the key shown for the line \<open>MODE = dev\<close> is
  \<open>MODE\<close>, not the text \<open>MODE \<close> that stands before the first \<open>=\<close>.
\<close>

theorem extract_keys_not_text_before_eq:
  "extract_keys [''MODE = dev''] = Inr [''MODE''] \<and>
   spec_key_list [''MODE = dev''] = [''MODE ''] \<and>
   extract_keys [''MODE = dev''] \<noteq> Inr (spec_key_list [''MODE = dev''])"
  by (simp add: py_strip_def py_isspace_def spec_key_list_def)

text \<open>
  C9, amended. For every environment file that \<open>load_environment\<close> reads, the key
  extraction does not raise and yields, for every line that contains \<open>=\<close> and does not
  start with \<open>#\<close>, the text before the first \<open>=\<close> with its surrounding white space
  stripped, and for no other line; \<open>load_environment\<close> returns and has printed these keys
  for the file.
\<close>

theorem load_environment_keys:
  assumes "f \<in> set [''.env.local'', ''.env'', ''.env.example'']"
    and "env_files X f = Some ls"
  shows "extract_keys ls = Inr (stripped_key_list ls) \<and>
         (\<exists>s'. load_environment X s = Inr s' \<and>
               Keys_loaded_from f (stripped_key_list ls) \<in> set (stderr s'))"
proof -
  let ?s2 = "print_stderr
               (Looking_for_environment_files [''.env.local'', ''.env'', ''.env.example''])
               (print_stderr (Current_working_directory (cwd X)) s)"
  from load_env_loop_stderr[of X "[''.env.local'', ''.env'', ''.env.example'']" "(False, ?s2)"]
  obtain st' where
    loop: "load_env_loop X [''.env.local'', ''.env'', ''.env.example''] (False, ?s2) = Inr st'"
    and keys: "\<forall>g ls. g \<in> set [''.env.local'', ''.env'', ''.env.example''] \<longrightarrow>
                 env_files X g = Some ls \<longrightarrow>
                 Keys_loaded_from g (stripped_key_list ls) \<in> set (stderr (snd st'))"
    by blast
  obtain b s3 where st': "st' = (b, s3)" by (cases st')
  from keys assms st' have k: "Keys_loaded_from f (stripped_key_list ls) \<in> set (stderr s3)"
    by auto
  have "\<exists>s'. load_environment X s = Inr s' \<and>
          Keys_loaded_from f (stripped_key_list ls) \<in> set (stderr s')"
    using loop k by (cases b) (simp_all add: load_environment_def st' stderr_print_stderr)
  then show ?thesis by (simp add: extract_keys_stripped)
qed

theorem load_environment_keys_witness:
  "''.env.local'' \<in> set [''.env.local'', ''.env'', ''.env.example''] \<and>
   env_files (example_externals (client_returning ''Hi'')) ''.env.local'' = Some env_local_lines \<and>
   stripped_key_list env_local_lines = [''OPENAI_API_KEY'', ''MODE''] \<and>
   extract_keys env_local_lines = Inr [''OPENAI_API_KEY'', ''MODE''] \<and>
   (\<exists>s'. load_environment (example_externals (client_returning ''Hi'')) (example_proc []) = Inr s' \<and>
         Keys_loaded_from ''.env.local'' [''OPENAI_API_KEY'', ''MODE''] \<in> set (stderr s'))"
proof -
  have m: "''.env.local'' \<in> set [''.env.local'', ''.env'', ''.env.example'']"
    by simp
  have f: "env_files (example_externals (client_returning ''Hi'')) ''.env.local'' = Some env_local_lines"
    by (simp add: example_externals_def example_files_def)
  have k: "stripped_key_list env_local_lines = [''OPENAI_API_KEY'', ''MODE'']"
    by (simp add: stripped_key_list_def env_local_lines_def text_lines_def
        py_strip_def py_isspace_def)
  show ?thesis
    using load_environment_keys[OF m f, of "example_proc []"]
    by (simp add: f k)
qed

section \<open>Properties of the Media Encoder\<close>

text \<open>The test vectors of RFC 4648, section 10.\<close>

lemma b64encode_rfc4648:
  "b64encode [] = []"
  "b64encode [102] = ''Zg==''"
  "b64encode [102, 111] = ''Zm8=''"
  "b64encode [102, 111, 111] = ''Zm9v''"
  "b64encode [102, 111, 111, 98] = ''Zm9vYg==''"
  "b64encode [102, 111, 111, 98, 97] = ''Zm9vYmE=''"
  "b64encode [102, 111, 111, 98, 97, 114] = ''Zm9vYmFy''"
  by (simp_all add: b64_char_def b64_alphabet_def)

lemma encode_image_file_Inr:
  "encode_image_file X path = Inr (enc, mime) \<Longrightarrow>
   \<exists>bytes. open_rb X path = Inr bytes \<and> enc = b64encode bytes \<and>
     mime = (case guess_type X path of
               None \<Rightarrow> ''image/png''
             | Some t \<Rightarrow> if t = [] then ''image/png'' else t)"
  by (auto simp: encode_image_file_def Let_def split: sum.splits option.splits)

lemma encode_image_file_Inl:
  "open_rb X path = Inl e \<Longrightarrow> encode_image_file X path = Inl e"
  by (simp add: encode_image_file_def Let_def)

section \<open>Properties of the Request Builder and Client Invoker\<close>

lemma requests_print_stderr: "requests (print_stderr d s) = requests s"
  by (simp add: print_stderr_def)

text \<open>The request that \<open>query_llm\<close> hands to the transport is the one built by lines 89 to 119.\<close>

lemma query_llm_dispatched:
  assumes "query_llm X p c m img s = (r, s')"
    and "requests s' = requests s @ [kw]"
  shows "query_llm_kwargs X p m img = Inr kw"
  using assms
  by (auto simp: query_llm_def print_stderr_def Let_def
      split: sum.splits option.splits prod.splits)


lemma query_llm_kwargs_o1:
  assumes "query_llm_kwargs X p (Some ''o1'') img = Inr kw"
  shows "\<exists>ms. kw = [(''model'', PStr ''o1''), (''messages'', ms),
                     (''response_format'', PDict [(''type'', PStr ''text'')]),
                     (''reasoning_effort'', PStr ''low'')]"
  using assms
  by (auto simp: query_llm_kwargs_def Let_def dict_del_def dict_contains_def
      split: sum.splits if_splits prod.splits)

lemma query_llm_kwargs_not_o1:
  assumes "query_llm_kwargs X p m img = Inr kw" and "m \<noteq> Some ''o1''"
  shows "\<exists>ms. kw = [(''model'', PStr (case m of None \<Rightarrow> ''gpt-4o'' | Some x \<Rightarrow> x)),
                     (''messages'', ms), (''temperature'', PFloat 0.7)]"
  using assms
  by (cases m)
     (auto simp: query_llm_kwargs_def Let_def split: sum.splits if_splits prod.splits)

text \<open>A request is built whenever the attachment, if there is one, can be read.\<close>

lemma query_llm_kwargs_total:
  assumes "attachment_readable X img"
  shows "\<exists>kw. query_llm_kwargs X p m img = Inr kw"
proof (cases "truthy img")
  case False
  then show ?thesis
    by (simp add: query_llm_kwargs_def Let_def dict_del_def dict_contains_def)
next
  case True
  then obtain path where img: "img = Some path" and ne: "path \<noteq> []"
    by (cases img) auto
  from assms img ne obtain bytes where "open_rb X path = Inr bytes"
    by (auto simp: attachment_readable_def split: sum.splits)
  then show ?thesis
    using img ne
    by (simp add: query_llm_kwargs_def encode_image_file_def Let_def dict_del_def
        dict_contains_def)
qed

text \<open>
  With a client at hand, given or made from \<open>OPENAI_API_KEY\<close>, a request that is built is
  handed to the transport and nothing is raised.
\<close>

lemma query_llm_dispatches:
  assumes "query_llm_kwargs X p m img = Inr kw"
    and "client_opt = Some c \<or>
         (client_opt = None \<and> getenv s ''OPENAI_API_KEY'' = Some key \<and> key \<noteq> [] \<and>
          OpenAI X key = c)"
  shows "\<exists>r s'. query_llm X p client_opt m img s = (Inr r, s') \<and>
           requests s' = requests s @ [kw]"
  using assms
  by (auto simp: query_llm_def create_llm_client_def print_stderr_def Let_def
      split: sum.splits option.splits prod.splits)

text \<open>
  C2. Every call of \<open>query_llm\<close> with the model \<open>o1\<close>, with a client at hand (given, or
  made from \<open>OPENAI_API_KEY\<close>) and an attachment that, if there is one, can be read, raises
  nothing and hands one request to the transport; this request has no \<open>temperature\<close>
  field, has \<open>reasoning_effort\<close> set to \<open>low\<close> and has \<open>response_format\<close> set to
  \<open>{"type": "text"}\<close>.
\<close>

theorem query_llm_reasoning_model_payload:
  assumes "attachment_readable X img"
    and "client_opt = Some c \<or>
         (client_opt = None \<and> getenv s ''OPENAI_API_KEY'' = Some key \<and> key \<noteq> [] \<and>
          OpenAI X key = c)"
  shows "\<exists>r s' kw.
           query_llm X p client_opt (Some ''o1'') img s = (Inr r, s') \<and>
           requests s' = requests s @ [kw] \<and>
           dict_get kw ''temperature'' = None \<and>
           dict_get kw ''reasoning_effort'' = Some (PStr ''low'') \<and>
           dict_get kw ''response_format'' = Some (PDict [(''type'', PStr ''text'')])"
proof -
  from query_llm_kwargs_total[OF assms(1)] obtain kw where
    kw: "query_llm_kwargs X p (Some ''o1'') img = Inr kw"
    by blast
  from query_llm_dispatches[OF kw assms(2)] obtain r s' where
    run: "query_llm X p client_opt (Some ''o1'') img s = (Inr r, s')"
         "requests s' = requests s @ [kw]"
    by blast
  from query_llm_kwargs_o1[OF kw] have
    "dict_get kw ''temperature'' = None \<and>
     dict_get kw ''reasoning_effort'' = Some (PStr ''low'') \<and>
     dict_get kw ''response_format'' = Some (PDict [(''type'', PStr ''text'')])"
    by (auto simp: dict_get_def)
  with run show ?thesis by blast
qed

text \<open>
  C3. Every call of \<open>query_llm\<close> with a model other than \<open>o1\<close>, or with no model, with a
  client at hand and an attachment that, if there is one, can be read, raises nothing and
  hands one request to the transport; this request has \<open>temperature\<close> set to \<open>0.7\<close> and
  has neither a \<open>reasoning_effort\<close> nor a \<open>response_format\<close> field; its model is the one
  given, and \<open>gpt-4o\<close> when none is given.
\<close>

theorem query_llm_chat_model_payload:
  assumes "m \<noteq> Some ''o1''"
    and "attachment_readable X img"
    and "client_opt = Some c \<or>
         (client_opt = None \<and> getenv s ''OPENAI_API_KEY'' = Some key \<and> key \<noteq> [] \<and>
          OpenAI X key = c)"
  shows "\<exists>r s' kw.
           query_llm X p client_opt m img s = (Inr r, s') \<and>
           requests s' = requests s @ [kw] \<and>
           dict_get kw ''temperature'' = Some (PFloat 0.7) \<and>
           dict_get kw ''reasoning_effort'' = None \<and>
           dict_get kw ''response_format'' = None \<and>
           dict_get kw ''model'' =
             Some (PStr (case m of None \<Rightarrow> ''gpt-4o'' | Some x \<Rightarrow> x))"
proof -
  from query_llm_kwargs_total[OF assms(2)] obtain kw where
    kw: "query_llm_kwargs X p m img = Inr kw"
    by blast
  from query_llm_dispatches[OF kw assms(3)] obtain r s' where
    run: "query_llm X p client_opt m img s = (Inr r, s')"
         "requests s' = requests s @ [kw]"
    by blast
  from query_llm_kwargs_not_o1[OF kw assms(1)] have
    "dict_get kw ''temperature'' = Some (PFloat 0.7) \<and>
     dict_get kw ''reasoning_effort'' = None \<and>
     dict_get kw ''response_format'' = None \<and>
     dict_get kw ''model'' = Some (PStr (case m of None \<Rightarrow> ''gpt-4o'' | Some x \<Rightarrow> x))"
    by (auto simp: dict_get_def)
  with run show ?thesis by blast
qed

lemmas run_defs =
  query_llm_def query_llm_kwargs_def create_llm_client_def encode_image_file_def main_def
  getenv_def dict_get_def dict_del_def dict_contains_def print_stderr_def
  print_stdout_def Let_def

lemma example_facts:
  "attachment_readable (example_externals c) None"
  "attachment_readable (example_externals c) (Some ''cat.jpg'')"
  "open_rb (example_externals c) ''cat.jpg'' = Inr [102, 111, 111, 98]"
  "guess_type (example_externals c) ''cat.jpg'' = Some ''image/jpeg''"
  "getenv keyed_proc ''OPENAI_API_KEY'' = Some ''sk-test''"
  "OpenAI (example_externals c) k = c"
  "requests keyed_proc = []"
  by (simp_all add: attachment_readable_def example_externals_def getenv_def dict_get_def
      keyed_proc_def example_proc_def)

theorem query_llm_reasoning_model_payload_witness:
  "attachment_readable (example_externals (client_returning ''Hi there'')) (Some ''cat.jpg'') \<and>
   getenv keyed_proc ''OPENAI_API_KEY'' = Some ''sk-test'' \<and> ''sk-test'' \<noteq> [] \<and>
   OpenAI (example_externals (client_returning ''Hi there'')) ''sk-test''
     = client_returning ''Hi there'' \<and>
   query_llm (example_externals (client_returning ''Hi there'')) ''Hello'' None (Some ''o1'')
     (Some ''cat.jpg'') keyed_proc
     = (Inr (Some ''Hi there''), keyed_proc\<lparr>requests := [cat_o1_request]\<rparr>) \<and>
   (\<exists>r s' kw.
      query_llm (example_externals (client_returning ''Hi there'')) ''Hello'' None (Some ''o1'')
        (Some ''cat.jpg'') keyed_proc = (Inr r, s') \<and>
      requests s' = requests keyed_proc @ [kw] \<and>
      dict_get kw ''temperature'' = None \<and>
      dict_get kw ''reasoning_effort'' = Some (PStr ''low'') \<and>
      dict_get kw ''response_format'' = Some (PDict [(''type'', PStr ''text'')]))"
proof -
  let ?X = "example_externals (client_returning ''Hi there'')"
  have att: "attachment_readable ?X (Some ''cat.jpg'')"
    by (rule example_facts)
  have cl: "(None :: client option) = Some (client_returning ''Hi there'') \<or>
            ((None :: client option) = None \<and>
             getenv keyed_proc ''OPENAI_API_KEY'' = Some ''sk-test'' \<and> ''sk-test'' \<noteq> [] \<and>
             OpenAI ?X ''sk-test'' = client_returning ''Hi there'')"
    by (simp add: example_facts)
  have run: "query_llm ?X ''Hello'' None (Some ''o1'') (Some ''cat.jpg'') keyed_proc
             = (Inr (Some ''Hi there''), keyed_proc\<lparr>requests := [cat_o1_request]\<rparr>)"
    by (simp add: run_defs example_defs cat_o1_request_def cat_messages_def
        b64_char_def b64_alphabet_def)
  show ?thesis
    using query_llm_reasoning_model_payload[OF att cl, of "''Hello''"] run
    by (simp add: example_facts)
qed

theorem query_llm_chat_model_payload_witness:
  "Some ''gpt-4o-mini'' \<noteq> Some ''o1'' \<and>
   attachment_readable (example_externals (client_returning ''Hi there'')) (Some ''cat.jpg'') \<and>
   getenv keyed_proc ''OPENAI_API_KEY'' = Some ''sk-test'' \<and> ''sk-test'' \<noteq> [] \<and>
   OpenAI (example_externals (client_returning ''Hi there'')) ''sk-test''
     = client_returning ''Hi there'' \<and>
   query_llm (example_externals (client_returning ''Hi there'')) ''Hello'' None
     (Some ''gpt-4o-mini'') (Some ''cat.jpg'') keyed_proc
     = (Inr (Some ''Hi there''), keyed_proc\<lparr>requests := [cat_mini_request]\<rparr>) \<and>
   (\<exists>r s' kw.
      query_llm (example_externals (client_returning ''Hi there'')) ''Hello'' None
        (Some ''gpt-4o-mini'') (Some ''cat.jpg'') keyed_proc = (Inr r, s') \<and>
      requests s' = requests keyed_proc @ [kw] \<and>
      dict_get kw ''temperature'' = Some (PFloat 0.7) \<and>
      dict_get kw ''reasoning_effort'' = None \<and>
      dict_get kw ''response_format'' = None \<and>
      dict_get kw ''model'' = Some (PStr ''gpt-4o-mini'')) \<and>
   (None :: string option) \<noteq> Some ''o1'' \<and>
   attachment_readable (example_externals (client_returning ''Hi there'')) None \<and>
   query_llm (example_externals (client_returning ''Hi there'')) ''Hello''
     (Some (client_returning ''Hi there'')) None None (example_proc [])
     = (Inr (Some ''Hi there''), (example_proc [])\<lparr>requests := [hello_request]\<rparr>) \<and>
   (\<exists>r s' kw.
      query_llm (example_externals (client_returning ''Hi there'')) ''Hello''
        (Some (client_returning ''Hi there'')) None None (example_proc []) = (Inr r, s') \<and>
      requests s' = requests (example_proc []) @ [kw] \<and>
      dict_get kw ''temperature'' = Some (PFloat 0.7) \<and>
      dict_get kw ''reasoning_effort'' = None \<and>
      dict_get kw ''response_format'' = None \<and>
      dict_get kw ''model'' = Some (PStr ''gpt-4o''))"
proof -
  let ?c = "client_returning ''Hi there''"
  let ?X = "example_externals ?c"
  have m1: "Some ''gpt-4o-mini'' \<noteq> Some ''o1''" by simp
  have att1: "attachment_readable ?X (Some ''cat.jpg'')"
    by (rule example_facts)
  have cl1: "(None :: client option) = Some ?c \<or>
            ((None :: client option) = None \<and>
             getenv keyed_proc ''OPENAI_API_KEY'' = Some ''sk-test'' \<and> ''sk-test'' \<noteq> [] \<and>
             OpenAI ?X ''sk-test'' = ?c)"
    by (simp add: example_facts)
  have run1: "query_llm ?X ''Hello'' None (Some ''gpt-4o-mini'') (Some ''cat.jpg'') keyed_proc
             = (Inr (Some ''Hi there''), keyed_proc\<lparr>requests := [cat_mini_request]\<rparr>)"
    by (simp add: run_defs example_defs cat_mini_request_def cat_messages_def
        b64_char_def b64_alphabet_def)
  have m2: "(None :: string option) \<noteq> Some ''o1''" by simp
  have att2: "attachment_readable ?X None"
    by (rule example_facts)
  have cl2: "Some ?c = Some ?c \<or>
            (Some ?c = None \<and>
             getenv (example_proc []) ''OPENAI_API_KEY'' = Some [] \<and> [] \<noteq> [] \<and>
             OpenAI ?X [] = ?c)"
    by simp
  have run2: "query_llm ?X ''Hello'' (Some ?c) None None (example_proc [])
             = (Inr (Some ''Hi there''), (example_proc [])\<lparr>requests := [hello_request]\<rparr>)"
    by (simp add: run_defs example_defs)
  show ?thesis
    using query_llm_chat_model_payload[OF m1 att1 cl1, of "''Hello''"]
      query_llm_chat_model_payload[OF m2 att2 cl2, of "''Hello''"] run1 run2
    by (simp add: example_facts)
qed

text \<open>
  C4, as the specification states it, fails for the empty string: \<open>if image_path:\<close> takes
  it for no attachment, and the content of the message is the text block alone.
\<close>

theorem empty_image_path_one_block:
  "query_llm (example_externals (client_returning ''Hi there'')) ''Hello'' None None (Some [])
     keyed_proc
     = (Inr (Some ''Hi there''), keyed_proc\<lparr>requests := [hello_request]\<rparr>) \<and>
   dict_get hello_request ''messages'' =
     Some (PList [PDict [(''role'', PStr ''user''),
                         (''content'',
                          PList [PDict [(''type'', PStr ''text''), (''text'', PStr ''Hello'')]])]])"
  by (simp add: run_defs example_defs)

text \<open>
  C4, amended. Every call of \<open>query_llm\<close> with a non-empty attachment path whose file can be
  read, and with a client at hand, raises nothing and hands one request to the transport;
  the content of its message is the text block with the prompt followed by the image block,
  whose URI is \<open>data:<mime>;base64,<payload>\<close>: the payload is the base64 encoding of the
  bytes of the file, and the type is the one guessed from the file name, or \<open>image/png\<close>
  when the guess is \<open>None\<close> or empty.
\<close>

theorem query_llm_image_content:
  assumes "path \<noteq> []"
    and "open_rb X path = Inr bytes"
    and "client_opt = Some c \<or>
         (client_opt = None \<and> getenv s ''OPENAI_API_KEY'' = Some key \<and> key \<noteq> [] \<and>
          OpenAI X key = c)"
  shows "\<exists>r s' kw.
           query_llm X p client_opt m (Some path) s = (Inr r, s') \<and>
           requests s' = requests s @ [kw] \<and>
           dict_get kw ''messages'' =
             Some (PList [PDict [(''role'', PStr ''user''),
                (''content'',
                 PList [PDict [(''type'', PStr ''text''), (''text'', PStr p)],
                        PDict [(''type'', PStr ''image_url''),
                               (''image_url'',
                                PDict [(''url'',
                                  PStr (''data:''
                                        @ (case guess_type X path of
                                             None \<Rightarrow> ''image/png''
                                           | Some t \<Rightarrow> if t = [] then ''image/png'' else t)
                                        @ '';base64,'' @ b64encode bytes))])]])]])"
proof -
  have "attachment_readable X (Some path)"
    using assms(1,2) by (simp add: attachment_readable_def)
  from query_llm_kwargs_total[OF this] obtain kw where
    kw: "query_llm_kwargs X p m (Some path) = Inr kw"
    by blast
  from query_llm_dispatches[OF kw assms(3)] obtain r s' where
    run: "query_llm X p client_opt m (Some path) s = (Inr r, s')"
         "requests s' = requests s @ [kw]"
    by blast
  have "dict_get kw ''messages'' =
          Some (PList [PDict [(''role'', PStr ''user''),
                (''content'',
                 PList [PDict [(''type'', PStr ''text''), (''text'', PStr p)],
                        PDict [(''type'', PStr ''image_url''),
                               (''image_url'',
                                PDict [(''url'',
                                  PStr (''data:''
                                        @ (case guess_type X path of
                                             None \<Rightarrow> ''image/png''
                                           | Some t \<Rightarrow> if t = [] then ''image/png'' else t)
                                        @ '';base64,'' @ b64encode bytes))])]])]])"
    using kw assms(1,2)
    by (auto simp: query_llm_kwargs_def encode_image_file_def Let_def dict_get_def
        dict_del_def dict_contains_def split: if_splits option.splits)
  with run show ?thesis by blast
qed

theorem query_llm_image_content_witness:
  "''cat.jpg'' \<noteq> [] \<and>
   open_rb (example_externals (client_returning ''Hi there'')) ''cat.jpg''
     = Inr [102, 111, 111, 98] \<and>
   b64encode [102, 111, 111, 98] = ''Zm9vYg=='' \<and>
   getenv keyed_proc ''OPENAI_API_KEY'' = Some ''sk-test'' \<and> ''sk-test'' \<noteq> [] \<and>
   OpenAI (example_externals (client_returning ''Hi there'')) ''sk-test''
     = client_returning ''Hi there'' \<and>
   query_llm (example_externals (client_returning ''Hi there'')) ''Hello'' None
     (Some ''gpt-4o-mini'') (Some ''cat.jpg'') keyed_proc
     = (Inr (Some ''Hi there''), keyed_proc\<lparr>requests := [cat_mini_request]\<rparr>) \<and>
   (\<exists>r s' kw.
      query_llm (example_externals (client_returning ''Hi there'')) ''Hello'' None
        (Some ''gpt-4o-mini'') (Some ''cat.jpg'') keyed_proc = (Inr r, s') \<and>
      requests s' = requests keyed_proc @ [kw] \<and>
      dict_get kw ''messages'' = Some cat_messages)"
proof -
  let ?c = "client_returning ''Hi there''"
  let ?X = "example_externals ?c"
  have ne: "''cat.jpg'' \<noteq> []" by simp
  have op: "open_rb ?X ''cat.jpg'' = Inr [102, 111, 111, 98]"
    by (rule example_facts)
  have cl: "(None :: client option) = Some ?c \<or>
            ((None :: client option) = None \<and>
             getenv keyed_proc ''OPENAI_API_KEY'' = Some ''sk-test'' \<and> ''sk-test'' \<noteq> [] \<and>
             OpenAI ?X ''sk-test'' = ?c)"
    by (simp add: example_facts)
  have run: "query_llm ?X ''Hello'' None (Some ''gpt-4o-mini'') (Some ''cat.jpg'') keyed_proc
             = (Inr (Some ''Hi there''), keyed_proc\<lparr>requests := [cat_mini_request]\<rparr>)"
    by (simp add: run_defs example_defs cat_mini_request_def cat_messages_def
        b64_char_def b64_alphabet_def)
  show ?thesis
    using query_llm_image_content[OF ne op cl, of "''Hello''" "Some ''gpt-4o-mini''"] run
    by (simp add: example_facts cat_messages_def b64_char_def b64_alphabet_def)
qed




text \<open>
  C6. Called without a client while \<open>OPENAI_API_KEY\<close> is missing from the environment (or
  empty), \<open>query_llm\<close> raises the \<open>ValueError\<close> of \<open>create_llm_client\<close>: the exception
  leaves the function instead of becoming \<open>None\<close>, nothing is printed and no request is
  handed to the transport, and it leaves \<open>main\<close> uncaught.
\<close>

theorem missing_credential_raises:
  assumes "\<not> truthy (getenv s ''OPENAI_API_KEY'')"
  shows "query_llm X p None m img s =
           (Inl (ValueError ''OPENAI_API_KEY not found in environment variables''), s) \<and>
         requests (snd (query_llm X p None m img s)) = requests s \<and>
         main X a s =
           (Uncaught (ValueError ''OPENAI_API_KEY not found in environment variables''), s)"
  using assms
  by (simp add: query_llm_def create_llm_client_def main_def Let_def)

theorem missing_credential_raises_witness:
  "\<not> truthy (getenv (example_proc [(''HOME'', ''/root'')]) ''OPENAI_API_KEY'') \<and>
   query_llm (example_externals (client_returning ''Hi there'')) ''Hello'' None None None
     (example_proc [(''HOME'', ''/root'')])
     = (Inl (ValueError ''OPENAI_API_KEY not found in environment variables''),
        example_proc [(''HOME'', ''/root'')]) \<and>
   requests (snd (query_llm (example_externals (client_returning ''Hi there'')) ''Hello'' None
                    None None (example_proc [(''HOME'', ''/root'')])))
     = requests (example_proc [(''HOME'', ''/root'')]) \<and>
   main (example_externals (client_returning ''Hi there'')) hello_args
     (example_proc [(''HOME'', ''/root'')])
     = (Uncaught (ValueError ''OPENAI_API_KEY not found in environment variables''),
        example_proc [(''HOME'', ''/root'')])"
proof -
  have h: "\<not> truthy (getenv (example_proc [(''HOME'', ''/root'')]) ''OPENAI_API_KEY'')"
    by (simp add: getenv_def dict_get_def example_proc_def)
  show ?thesis
    using missing_credential_raises[OF h,
        of "example_externals (client_returning ''Hi there'')" "''Hello''" None None hello_args]
      h
    by (simp add: hello_args_def)
qed

text \<open>
  C5. When the chat-completion call raises, \<open>query_llm\<close> catches the exception: it prints
  one diagnostic to standard error and returns \<open>None\<close>. Run from the command line, where
  the client is made from \<open>OPENAI_API_KEY\<close>, \<open>main\<close> then prints nothing to standard output
  and calls \<open>sys.exit(1)\<close>.
\<close>

theorem transport_failure_absorbed:
  assumes "query_llm_kwargs X p m img = Inr kw"
    and "create c kw = Inl e"
  shows "query_llm X p (Some c) m img s =
           (Inr None,
            s\<lparr>requests := requests s @ [kw], stderr := stderr s @ [Error_querying_LLM e]\<rparr>) \<and>
         (getenv s ''OPENAI_API_KEY'' = Some key \<and> key \<noteq> [] \<and> OpenAI X key = c \<longrightarrow>
            main X \<lparr>arg_prompt = p, arg_model = m, arg_image = img\<rparr> s =
              (SystemExit 1,
               s\<lparr>requests := requests s @ [kw],
                 stderr := stderr s @ [Error_querying_LLM e]\<rparr>) \<and>
            exit_status (fst (main X \<lparr>arg_prompt = p, arg_model = m, arg_image = img\<rparr> s)) = 1)"
  using assms
  by (simp add: query_llm_def create_llm_client_def main_def print_stderr_def Let_def)

theorem transport_failure_absorbed_witness:
  "query_llm_kwargs (example_externals (client_failing (APIError ''Connection error.''))) ''Hello''
     None None = Inr hello_request \<and>
   create (client_failing (APIError ''Connection error.'')) hello_request
     = Inl (APIError ''Connection error.'') \<and>
   getenv keyed_proc ''OPENAI_API_KEY'' = Some ''sk-test'' \<and> ''sk-test'' \<noteq> [] \<and>
   OpenAI (example_externals (client_failing (APIError ''Connection error.''))) ''sk-test''
     = client_failing (APIError ''Connection error.'') \<and>
   query_llm (example_externals (client_failing (APIError ''Connection error.''))) ''Hello''
     (Some (client_failing (APIError ''Connection error.''))) None None keyed_proc
     = (Inr None,
        keyed_proc\<lparr>requests := [hello_request],
                   stderr := [Error_querying_LLM (APIError ''Connection error.'')]\<rparr>) \<and>
   main (example_externals (client_failing (APIError ''Connection error.''))) hello_args keyed_proc
     = (SystemExit 1,
        keyed_proc\<lparr>requests := [hello_request],
                   stderr := [Error_querying_LLM (APIError ''Connection error.'')]\<rparr>) \<and>
   exit_status (fst (main (example_externals (client_failing (APIError ''Connection error.'')))
                       hello_args keyed_proc)) = 1"
proof -
  let ?c = "client_failing (APIError ''Connection error.'')"
  have kw: "query_llm_kwargs (example_externals ?c) ''Hello'' None None = Inr hello_request"
    by (simp add: run_defs example_defs)
  have fail: "create ?c hello_request = Inl (APIError ''Connection error.'')"
    by (simp add: client_failing_def)
  have key: "getenv keyed_proc ''OPENAI_API_KEY'' = Some ''sk-test''"
    by (simp add: getenv_def dict_get_def keyed_proc_def example_proc_def)
  have mk: "OpenAI (example_externals ?c) ''sk-test'' = ?c"
    by (simp add: example_externals_def)
  have st: "requests keyed_proc = []" "stderr keyed_proc = []"
    by (simp_all add: keyed_proc_def example_proc_def)
  show ?thesis
    using transport_failure_absorbed[OF kw fail, of keyed_proc "''sk-test''"] kw fail key mk
    by (simp add: st hello_args_def)
qed

text \<open>
  C7, as the specification states it, fails: the attachment \<open>missing.png\<close> cannot be
  opened and \<open>encode_image_file\<close> raises the I/O error, but \<open>query_llm\<close> returns \<open>None\<close>
  and \<open>main\<close> ends with \<open>sys.exit(1)\<close>, not with an uncaught exception.
\<close>

theorem missing_image_not_propagated:
  "encode_image_file (example_externals (client_returning ''Hi there'')) ''missing.png''
     = Inl (OSError ''No such file or directory'') \<and>
   query_llm (example_externals (client_returning ''Hi there'')) ''Hello'' None None
     (Some ''missing.png'') keyed_proc
     = (Inr None,
        keyed_proc\<lparr>stderr := [Error_querying_LLM (OSError ''No such file or directory'')]\<rparr>) \<and>
   main (example_externals (client_returning ''Hi there''))
     \<lparr>arg_prompt = ''Hello'', arg_model = None, arg_image = Some ''missing.png''\<rparr> keyed_proc
     = (SystemExit 1,
        keyed_proc\<lparr>stderr := [Error_querying_LLM (OSError ''No such file or directory'')]\<rparr>)"
  by (simp add: run_defs example_defs)

text \<open>
  C7, amended. When the attachment cannot be opened, the I/O error leaves
  \<open>encode_image_file\<close>, and \<open>query_llm\<close>, called with a client, catches it: it prints the
  diagnostic to standard error, hands no request to the transport and returns \<open>None\<close>. Run
  from the command line with \<open>OPENAI_API_KEY\<close> set, \<open>main\<close> then calls \<open>sys.exit(1)\<close>.
\<close>

theorem unreadable_image_absorbed:
  assumes "path \<noteq> []"
    and "open_rb X path = Inl e"
  shows "encode_image_file X path = Inl e \<and>
         query_llm X p (Some c) m (Some path) s =
           (Inr None, s\<lparr>stderr := stderr s @ [Error_querying_LLM e]\<rparr>) \<and>
         (getenv s ''OPENAI_API_KEY'' = Some key \<and> key \<noteq> [] \<longrightarrow>
            main X \<lparr>arg_prompt = p, arg_model = m, arg_image = Some path\<rparr> s =
              (SystemExit 1, s\<lparr>stderr := stderr s @ [Error_querying_LLM e]\<rparr>))"
  using assms
  by (simp add: query_llm_def query_llm_kwargs_def encode_image_file_Inl create_llm_client_def
      main_def print_stderr_def Let_def)

theorem unreadable_image_absorbed_witness:
  "''missing.png'' \<noteq> [] \<and>
   open_rb (example_externals (client_returning ''Hi there'')) ''missing.png''
     = Inl (OSError ''No such file or directory'') \<and>
   getenv keyed_proc ''OPENAI_API_KEY'' = Some ''sk-test'' \<and> ''sk-test'' \<noteq> [] \<and>
   encode_image_file (example_externals (client_returning ''Hi there'')) ''missing.png''
     = Inl (OSError ''No such file or directory'') \<and>
   query_llm (example_externals (client_returning ''Hi there'')) ''Hello''
     (Some (client_returning ''Hi there'')) (Some ''o1'') (Some ''missing.png'') keyed_proc
     = (Inr None,
        keyed_proc\<lparr>stderr := [Error_querying_LLM (OSError ''No such file or directory'')]\<rparr>) \<and>
   main (example_externals (client_returning ''Hi there''))
     \<lparr>arg_prompt = ''Hello'', arg_model = Some ''o1'', arg_image = Some ''missing.png''\<rparr>
     keyed_proc
     = (SystemExit 1,
        keyed_proc\<lparr>stderr := [Error_querying_LLM (OSError ''No such file or directory'')]\<rparr>)"
proof -
  let ?X = "example_externals (client_returning ''Hi there'')"
  have ne: "''missing.png'' \<noteq> []" by simp
  have op: "open_rb ?X ''missing.png'' = Inl (OSError ''No such file or directory'')"
    by (simp add: example_externals_def)
  have key: "getenv keyed_proc ''OPENAI_API_KEY'' = Some ''sk-test''"
    by (simp add: getenv_def dict_get_def keyed_proc_def example_proc_def)
  have st: "stderr keyed_proc = []"
    by (simp add: keyed_proc_def example_proc_def)
  show ?thesis
    using unreadable_image_absorbed[OF ne op,
        of "''Hello''" "client_returning ''Hi there''" "Some ''o1''" keyed_proc "''sk-test''"]
      op key
    by (simp add: st)
qed

section \<open>Properties of the CLI Front-End\<close>

text \<open>What \<open>main\<close> does with the result of \<open>query_llm\<close>.\<close>

lemma main_cases:
  "main X a s =
     (case query_llm X (arg_prompt a) None (arg_model a) (arg_image a) s of
        (Inl e, s1) \<Rightarrow> (Uncaught e, s1)
      | (Inr None, s1) \<Rightarrow> (SystemExit 1, s1)
      | (Inr (Some t), s1) \<Rightarrow>
          if t = [] then (SystemExit 1, s1) else (Returned, s1\<lparr>stdout := stdout s1 @ [t]\<rparr>))"
  by (simp add: main_def print_stdout_def split: prod.splits sum.splits option.splits)

text \<open>A non-empty response is printed and the exit status is 0; without a result it is 1.\<close>

lemma main_prints_response:
  assumes "query_llm X (arg_prompt a) None (arg_model a) (arg_image a) s = (Inr (Some t), s1)"
    and "t \<noteq> []"
  shows "main X a s = (Returned, s1\<lparr>stdout := stdout s1 @ [t]\<rparr>)"
    and "exit_status (fst (main X a s)) = 0"
  using assms by (simp_all add: main_cases)

lemma main_absent_result:
  assumes "query_llm X (arg_prompt a) None (arg_model a) (arg_image a) s = (Inr None, s1)"
  shows "main X a s = (SystemExit 1, s1)"
    and "exit_status (fst (main X a s)) = 1"
  using assms by (simp_all add: main_cases)

text \<open>The end-to-end run: the prompt \<open>Hello\<close>, a transport that answers \<open>Hi there\<close>.\<close>

lemma main_hello_hi_there:
  "main (example_externals (client_returning ''Hi there'')) hello_args keyed_proc
     = (Returned, keyed_proc\<lparr>requests := [hello_request], stdout := [''Hi there'']\<rparr>)"
  "exit_status (fst (main (example_externals (client_returning ''Hi there'')) hello_args
                       keyed_proc)) = 0"
  by (simp_all add: run_defs example_defs)

text \<open>
  C8 at the input where the code departs from it: the transport answers with the empty
  string, \<open>query_llm\<close> returns it as a result that is present, and \<open>main\<close> prints nothing
  and ends with \<open>sys.exit(1)\<close>, as it does for \<open>None\<close>.
\<close>

theorem main_empty_response_exits_1:
  "query_llm (example_externals (client_returning [])) ''Hello'' None None None keyed_proc
     = (Inr (Some []), keyed_proc\<lparr>requests := [hello_request]\<rparr>) \<and>
   main (example_externals (client_returning [])) hello_args keyed_proc
     = (SystemExit 1, keyed_proc\<lparr>requests := [hello_request]\<rparr>) \<and>
   stdout (snd (main (example_externals (client_returning [])) hello_args keyed_proc)) = [] \<and>
   exit_status (fst (main (example_externals (client_returning [])) hello_args keyed_proc)) = 1"
  by (simp add: run_defs example_defs)

end
